theory Spec2Isabelle
  imports Complex_Main
begin

section \<open>Data model of main.js\<close>

text \<open>
  The script keeps its state in closure variables of one immediately invoked function:
  the object registry \<^verbatim>\<open>objects\<close>, the set \<^verbatim>\<open>spinningObjects\<close>, the two references
  \<^verbatim>\<open>hoveredObject\<close> and \<^verbatim>\<open>selectedObject\<close>, the camera, and the joystick variables.
  They become the fields of one record, and every handler becomes a function from
  that record to the updated record.

  JavaScript numbers are idealised as real numbers: rounding, NaN and the infinities
  are outside the model. The only place where this hides a difference is a division
  by a zero joystick radius, where JavaScript would store NaN or an infinity.
\<close>

text \<open>The object literals \<^verbatim>\<open>{ x: 0, y: 0 }\<close> of the joystick.\<close>

record Point =
  p_x :: real
  p_y :: real

text \<open>THREE.Vector3 and THREE.Euler, reduced to their coordinates.\<close>

record Vector3 =
  v_x :: real
  v_y :: real
  v_z :: real

record Euler =
  r_x :: real
  r_y :: real
  r_z :: real

text \<open>
  The fields of a MeshStandardMaterial that main.js writes: the emissive colour (as its
  hex value), its intensity, and the texture in \<^verbatim>\<open>map\<close> (a texture handle).
\<close>

record Material =
  emissive :: nat
  emissiveIntensity :: real
  texture_map :: "nat option"

record Mesh =
  position :: Vector3
  rotation :: Euler
  material :: Material

text \<open>
  A JavaScript object reference is an address; \<^verbatim>\<open>===\<close> on objects compares addresses.
  Every mesh owns the material that \<^verbatim>\<open>createPrimitive\<close> allocated for it, so the
  material is stored inside the mesh.
\<close>

type_synonym obj_ref = nat

text \<open>
  The camera: its position, its up vector, and the vector that
  \<^verbatim>\<open>camera.getWorldDirection\<close> returns for its present orientation.
\<close>

record Camera =
  cam_position :: Vector3
  cam_up :: Vector3
  cam_worldDirection :: Vector3

text \<open>One entry of \<^verbatim>\<open>event.changedTouches\<close>.\<close>

record Touch =
  touch_identifier :: int
  clientX :: real
  clientY :: real

text \<open>The result of \<^verbatim>\<open>joystickBase.getBoundingClientRect()\<close>.\<close>

record DOMRect =
  rect_left :: real
  rect_top :: real
  rect_width :: real
  rect_height :: real

text \<open>
  \<^verbatim>\<open>spinningObjects\<close> is a JavaScript Set, which iterates in insertion order: a list
  in which \<^verbatim>\<open>add\<close> appends an absent element and \<^verbatim>\<open>delete\<close> removes the element.
  \<^verbatim>\<open>joystickStick_transform\<close> holds the two pixel offsets of the last
  \<^verbatim>\<open>translate(...)\<close> written to the stick's style.
\<close>

record world =
  objects :: "(obj_ref \<times> string) list"
  spinningObjects :: "obj_ref list"
  meshes :: "obj_ref \<Rightarrow> Mesh"
  hoveredObject :: "obj_ref option"
  selectedObject :: "obj_ref option"
  camera :: Camera
  joystickRadius :: real
  joystickPointerId :: "int option"
  joystickCenter :: Point
  joystickPos :: Point
  joystickVector :: Point
  joystickStick_transform :: Point

datatype js_error = TypeError

section \<open>Joystick handlers\<close>

definition setJoystickPosition :: "DOMRect \<Rightarrow> real \<Rightarrow> real \<Rightarrow> world \<Rightarrow> world" where
  "setJoystickPosition rect x y w =
     w\<lparr>joystickCenter :=
         \<lparr>p_x = rect_left rect + rect_width rect / 2,
          p_y = rect_top rect + rect_height rect / 2\<rparr>,
       joystickPointerId := None,
       joystickPos := \<lparr>p_x = x, p_y = y\<rparr>,
       joystickStick_transform := \<lparr>p_x = x, p_y = y\<rparr>\<rparr>"

text \<open>
  The touchstart listener. Reading \<^verbatim>\<open>identifier\<close> of \<^verbatim>\<open>changedTouches[0]\<close> throws a
  TypeError when the list is empty; nothing has been written at that point.
\<close>

definition touchstart :: "DOMRect \<Rightarrow> Touch list \<Rightarrow> world \<Rightarrow> js_error + world" where
  "touchstart rect changedTouches w =
     (if joystickPointerId w \<noteq> None then Inr w
      else case changedTouches of
        [] \<Rightarrow> Inl TypeError
      | touch # _ \<Rightarrow>
          Inr (setJoystickPosition rect 0 0 (w\<lparr>joystickPointerId := Some (touch_identifier touch)\<rparr>)))"

text \<open>
  \<^verbatim>\<open>Math.atan2(y, x)\<close>: the angle in \<open>(-\<pi>, \<pi>]\<close> of the point \<open>(x, y)\<close>.
\<close>

definition atan2 :: "real \<Rightarrow> real \<Rightarrow> real" where
  "atan2 y x =
     (if 0 < x then arctan (y / x)
      else if x < 0 then (if 0 \<le> y then arctan (y / x) + pi else arctan (y / x) - pi)
      else if 0 < y then pi / 2
      else if y < 0 then - (pi / 2)
      else 0)"

text \<open>
  The touchmove listener: the loop over \<^verbatim>\<open>changedTouches\<close> handles the first touch
  whose identifier is the stored one and returns.
\<close>

definition touchmove :: "Touch list \<Rightarrow> world \<Rightarrow> world" where
  "touchmove changedTouches w =
     (if joystickPointerId w = None then w
      else case find (\<lambda>t. Some (touch_identifier t) = joystickPointerId w) changedTouches of
        None \<Rightarrow> w
      | Some touch \<Rightarrow>
          let deltaX = clientX touch - p_x (joystickCenter w);
              deltaY = clientY touch - p_y (joystickCenter w);
              distance = sqrt (deltaX * deltaX + deltaY * deltaY);
              maxDistance = joystickRadius w;
              angle = atan2 deltaY deltaX;
              clampedX = (if distance > maxDistance then cos angle * maxDistance else deltaX);
              clampedY = (if distance > maxDistance then sin angle * maxDistance else deltaY)
          in w\<lparr>joystickPos := \<lparr>p_x = clampedX, p_y = clampedY\<rparr>,
               joystickStick_transform := \<lparr>p_x = clampedX, p_y = clampedY\<rparr>,
               joystickVector := \<lparr>p_x = clampedX / maxDistance, p_y = clampedY / maxDistance\<rparr>\<rparr>)"

text \<open>
  The touchend listener of the joystick base. A numeric identifier is never
  \<^verbatim>\<open>===\<close> to \<^verbatim>\<open>null\<close>, so nothing matches while no identifier is stored.
\<close>

definition touchend :: "Touch list \<Rightarrow> world \<Rightarrow> world" where
  "touchend changedTouches w =
     (case find (\<lambda>t. Some (touch_identifier t) = joystickPointerId w) changedTouches of
        None \<Rightarrow> w
      | Some _ \<Rightarrow>
          w\<lparr>joystickPointerId := None,
            joystickPos := \<lparr>p_x = 0, p_y = 0\<rparr>,
            joystickVector := \<lparr>p_x = 0, p_y = 0\<rparr>,
            joystickStick_transform := \<lparr>p_x = 0, p_y = 0\<rparr>\<rparr>)"

definition touchcancel :: "world \<Rightarrow> world" where
  "touchcancel w =
     w\<lparr>joystickPointerId := None,
       joystickPos := \<lparr>p_x = 0, p_y = 0\<rparr>,
       joystickVector := \<lparr>p_x = 0, p_y = 0\<rparr>,
       joystickStick_transform := \<lparr>p_x = 0, p_y = 0\<rparr>\<rparr>"

text \<open>The Euclidean length of a joystick vector.\<close>

definition magnitude :: "Point \<Rightarrow> real" where
  "magnitude p = sqrt (p_x p * p_x p + p_y p * p_y p)"

section \<open>The three.js vector operations used by the frame loop\<close>

text \<open>
  \<^verbatim>\<open>Vector3.length\<close>, \<^verbatim>\<open>multiplyScalar\<close>, \<^verbatim>\<open>divideScalar\<close> (a multiplication by the
  reciprocal), \<^verbatim>\<open>normalize\<close> (which divides by \<^verbatim>\<open>this.length() || 1\<close>, so the zero
  vector stays zero), \<^verbatim>\<open>crossVectors\<close> and \<^verbatim>\<open>addScaledVector\<close>.
\<close>

definition length_v :: "Vector3 \<Rightarrow> real" where
  "length_v v = sqrt (v_x v * v_x v + v_y v * v_y v + v_z v * v_z v)"

definition multiplyScalar :: "Vector3 \<Rightarrow> real \<Rightarrow> Vector3" where
  "multiplyScalar v s = \<lparr>v_x = v_x v * s, v_y = v_y v * s, v_z = v_z v * s\<rparr>"

definition divideScalar :: "Vector3 \<Rightarrow> real \<Rightarrow> Vector3" where
  "divideScalar v s = multiplyScalar v (1 / s)"

definition normalize :: "Vector3 \<Rightarrow> Vector3" where
  "normalize v = divideScalar v (if length_v v = 0 then 1 else length_v v)"

definition crossVectors :: "Vector3 \<Rightarrow> Vector3 \<Rightarrow> Vector3" where
  "crossVectors a b =
     \<lparr>v_x = v_y a * v_z b - v_z a * v_y b,
      v_y = v_z a * v_x b - v_x a * v_z b,
      v_z = v_x a * v_y b - v_y a * v_x b\<rparr>"

definition addScaledVector :: "Vector3 \<Rightarrow> Vector3 \<Rightarrow> real \<Rightarrow> Vector3" where
  "addScaledVector p v s =
     \<lparr>v_x = v_x p + v_x v * s, v_y = v_y p + v_y v * s, v_z = v_z p + v_z v * s\<rparr>"

section \<open>The frame loop\<close>

text \<open>The block of \<^verbatim>\<open>animate\<close> under the comment "Mobile joystick movement".\<close>

definition animate_movement :: "world \<Rightarrow> world" where
  "animate_movement w =
     (if p_x (joystickVector w) \<noteq> 0 \<or> p_y (joystickVector w) \<noteq> 0 then
        let forward = cam_worldDirection (camera w);
            forward = forward\<lparr>v_y := 0\<rparr>;
            forward = normalize forward;
            right = normalize (crossVectors (cam_up (camera w)) forward);
            moveSpeed = 0.15;
            pos = addScaledVector (cam_position (camera w)) forward
                    (- p_y (joystickVector w) * moveSpeed);
            pos = addScaledVector pos right (p_x (joystickVector w) * moveSpeed);
            pos = (if v_y pos < 1.2 then pos\<lparr>v_y := 1.2\<rparr> else pos)
        in w\<lparr>camera := (camera w)\<lparr>cam_position := pos\<rparr>\<rparr>
      else w)"

text \<open>
  The block "Spin selected objects": \<^verbatim>\<open>forEach\<close> over the set, in insertion order;
  \<^verbatim>\<open>delta\<close> is the value of \<^verbatim>\<open>clock.getDelta()\<close>.
\<close>

definition spin_obj :: "real \<Rightarrow> obj_ref \<Rightarrow> (obj_ref \<Rightarrow> Mesh) \<Rightarrow> (obj_ref \<Rightarrow> Mesh)" where
  "spin_obj delta obj m =
     m(obj := (m obj)\<lparr>rotation := (rotation (m obj))\<lparr>r_y := r_y (rotation (m obj)) + delta * 0.2\<rparr>\<rparr>)"

definition animate_spin :: "real \<Rightarrow> world \<Rightarrow> world" where
  "animate_spin delta w = w\<lparr>meshes := fold (spin_obj delta) (spinningObjects w) (meshes w)\<rparr>"

text \<open>
  The two writes that every highlight change consists of:
  \<^verbatim>\<open>obj.material.emissive.set(c); obj.material.emissiveIntensity = i\<close>.
  The colour keyword \<^verbatim>\<open>'turquoise'\<close> is the hex value 40E0D0.
\<close>

definition turquoise :: nat where
  "turquoise = 0x40E0D0"

definition set_emissive :: "obj_ref \<Rightarrow> nat \<Rightarrow> real \<Rightarrow> world \<Rightarrow> world" where
  "set_emissive obj c i w =
     w\<lparr>meshes := (meshes w)(obj :=
         (meshes w obj)\<lparr>material := (material (meshes w obj))\<lparr>emissive := c, emissiveIntensity := i\<rparr>\<rparr>)\<rparr>"

text \<open>
  The block "Raycast from center to detect hovered object". \<^verbatim>\<open>intersects\<close> is the list
  of the objects hit, nearest first, as \<^verbatim>\<open>raycaster.intersectObjects\<close> returns it.
\<close>

definition animate_hover :: "obj_ref list \<Rightarrow> world \<Rightarrow> world" where
  "animate_hover intersects w =
     (case intersects of
        intersected # _ \<Rightarrow>
          if hoveredObject w \<noteq> Some intersected then
            let w1 = (case hoveredObject w of
                        Some h \<Rightarrow> if Some h \<noteq> selectedObject w then set_emissive h 0x000000 0 w else w
                      | None \<Rightarrow> w);
                w2 = w1\<lparr>hoveredObject := Some intersected\<rparr>
            in if hoveredObject w2 \<noteq> selectedObject w2
               then set_emissive intersected turquoise 0.6 w2 else w2
          else w
      | [] \<Rightarrow>
          let w1 = (case hoveredObject w of
                      Some h \<Rightarrow> if Some h \<noteq> selectedObject w then set_emissive h 0x000000 0 w else w
                    | None \<Rightarrow> w)
          in w1\<lparr>hoveredObject := None\<rparr>)"

text \<open>
  What one frame receives from outside the script: the effect of \<^verbatim>\<open>controls.update()\<close>
  on the camera, the clock's delta, and the result of the ray cast.
\<close>

record frame =
  controls_update :: "Camera \<Rightarrow> Camera"
  clock_delta :: real
  ray_intersects :: "obj_ref list"

definition animate :: "frame \<Rightarrow> world \<Rightarrow> world" where
  "animate f w =
     (let w = w\<lparr>camera := controls_update f (camera w)\<rparr>;
          w = animate_movement w;
          w = animate_spin (clock_delta f) w
      in animate_hover (ray_intersects f) w)"

section \<open>Selection on tap and click\<close>

text \<open>The touchend listener of the window.\<close>

definition window_touchend :: "world \<Rightarrow> world" where
  "window_touchend w =
     (case hoveredObject w of
        Some h \<Rightarrow>
          if Some h \<noteq> selectedObject w then
            let w1 = (case selectedObject w of
                        Some s \<Rightarrow> set_emissive s 0x000000 0 w
                      | None \<Rightarrow> w);
                w2 = w1\<lparr>selectedObject := hoveredObject w1\<rparr>
            in set_emissive h turquoise 1 w2
          else w
      | None \<Rightarrow>
          (case selectedObject w of
             Some s \<Rightarrow> (set_emissive s 0x000000 0 w)\<lparr>selectedObject := None\<rparr>
           | None \<Rightarrow> w))"

text \<open>The click listener of the window: the same statements.\<close>

definition window_click :: "world \<Rightarrow> world" where
  "window_click w =
     (case hoveredObject w of
        Some h \<Rightarrow>
          if Some h \<noteq> selectedObject w then
            let w1 = (case selectedObject w of
                        Some s \<Rightarrow> set_emissive s 0x000000 0 w
                      | None \<Rightarrow> w);
                w2 = w1\<lparr>selectedObject := hoveredObject w1\<rparr>
            in set_emissive h turquoise 1 w2
          else w
      | None \<Rightarrow>
          (case selectedObject w of
             Some s \<Rightarrow> (set_emissive s 0x000000 0 w)\<lparr>selectedObject := None\<rparr>
           | None \<Rightarrow> w))"

section \<open>The spin toggle\<close>

text \<open>
  The click listener of the toggle button; \<^verbatim>\<open>objName\<close> is the value of the select
  element. The empty string is falsy: the handler alerts and returns.
  \<^verbatim>\<open>objects.find\<close> returns the first entry with that name.
\<close>

definition toggleSpin :: "string \<Rightarrow> world \<Rightarrow> world" where
  "toggleSpin objName w =
     (if objName = [] then w
      else case find (\<lambda>entry. snd entry = objName) (objects w) of
        None \<Rightarrow> w
      | Some objData \<Rightarrow>
          if fst objData \<in> set (spinningObjects w)
          then w\<lparr>spinningObjects := removeAll (fst objData) (spinningObjects w)\<rparr>
          else w\<lparr>spinningObjects := spinningObjects w @ [fst objData]\<rparr>)"

section \<open>Runs of the script\<close>

datatype event =
    JoystickTouchStart DOMRect "Touch list"
  | JoystickTouchMove "Touch list"
  | JoystickTouchEnd "Touch list"
  | JoystickTouchCancel
  | Frame frame
  | WindowTouchEnd
  | WindowClick
  | ToggleSpinClick string

text \<open>
  One event. A listener that throws leaves the state as it was when it threw; the
  touchstart listener has written nothing by then.
\<close>

fun dispatch :: "event \<Rightarrow> world \<Rightarrow> world" where
  "dispatch (JoystickTouchStart rect ts) w =
     (case touchstart rect ts w of Inl _ \<Rightarrow> w | Inr w' \<Rightarrow> w')"
| "dispatch (JoystickTouchMove ts) w = touchmove ts w"
| "dispatch (JoystickTouchEnd ts) w = touchend ts w"
| "dispatch JoystickTouchCancel w = touchcancel w"
| "dispatch (Frame f) w = animate f w"
| "dispatch WindowTouchEnd w = window_touchend w"
| "dispatch WindowClick w = window_click w"
| "dispatch (ToggleSpinClick n) w = toggleSpin n w"

fun run :: "event list \<Rightarrow> world \<Rightarrow> world" where
  "run [] w = w"
| "run (e # es) w = run es (dispatch e w)"

text \<open>
  The state when the script has run to its end: \<^verbatim>\<open>prepopulateObjects\<close> has registered
  five meshes (a mesh made by \<^verbatim>\<open>createPrimitive\<close> has a material with black emissive
  colour and three.js's default intensity 1), nothing is hovered or selected, nothing
  spins, the camera is at (0, 15, 25) and the constructor of the orbit controls has
  turned it towards the origin, and no joystick pointer is stored. \<^verbatim>\<open>R\<close> is
  \<^verbatim>\<open>joystickBase.offsetWidth / 2\<close>.
\<close>

definition createPrimitive :: "Vector3 \<Rightarrow> Mesh" where
  "createPrimitive pos =
     \<lparr>position = pos,
      rotation = \<lparr>r_x = 0, r_y = 0, r_z = 0\<rparr>,
      material = \<lparr>emissive = 0x000000, emissiveIntensity = 1, texture_map = None\<rparr>\<rparr>"

definition initial_world :: "real \<Rightarrow> world" where
  "initial_world R =
     \<lparr>objects = [(0, ''prepop1_box''), (1, ''prepop2_sphere''), (2, ''prepop3_cone''),
                 (3, ''prepop4_cylinder''), (4, ''prepop5_plane'')],
      spinningObjects = [],
      meshes = (\<lambda>i. createPrimitive
                  (if i < 5
                   then \<lparr>v_x = real i * 6 - 12, v_y = (if i = 2 \<or> i = 3 then 2 else 1.5), v_z = 0\<rparr>
                   else \<lparr>v_x = 0, v_y = 0, v_z = 0\<rparr>)),
      hoveredObject = None,
      selectedObject = None,
      camera = \<lparr>cam_position = \<lparr>v_x = 0, v_y = 15, v_z = 25\<rparr>,
                cam_up = \<lparr>v_x = 0, v_y = 1, v_z = 0\<rparr>,
                cam_worldDirection = \<lparr>v_x = 0, v_y = - 15 / sqrt 850, v_z = - 25 / sqrt 850\<rparr>\<rparr>,
      joystickRadius = R,
      joystickPointerId = None,
      joystickCenter = \<lparr>p_x = 0, p_y = 0\<rparr>,
      joystickPos = \<lparr>p_x = 0, p_y = 0\<rparr>,
      joystickVector = \<lparr>p_x = 0, p_y = 0\<rparr>,
      joystickStick_transform = \<lparr>p_x = 0, p_y = 0\<rparr>\<rparr>"

text \<open>The two discrete selection events.\<close>

fun is_tap :: "event \<Rightarrow> bool" where
  "is_tap WindowTouchEnd = True"
| "is_tap WindowClick = True"
| "is_tap _ = False"

section \<open>The movement step as the specification words it\<close>

text \<open>
  Forward is the camera's world direction with its y-component zeroed, renormalised;
  right is the cross product of the camera's up vector and forward, renormalised; the
  position moves by \<open>- deltaVector.y * speed\<close> along forward and by
  \<open>deltaVector.x * speed\<close> along right; then the height is raised to the floor.
\<close>

definition spec_forward :: "Camera \<Rightarrow> Vector3" where
  "spec_forward cam = normalize ((cam_worldDirection cam)\<lparr>v_y := 0\<rparr>)"

definition spec_right :: "Camera \<Rightarrow> Vector3" where
  "spec_right cam = normalize (crossVectors (cam_up cam) (spec_forward cam))"

definition spec_applyMovement :: "Camera \<Rightarrow> Point \<Rightarrow> real \<Rightarrow> real \<Rightarrow> Camera" where
  "spec_applyMovement cam deltaVector speed floor_y =
     (let a = - p_y deltaVector * speed;
          b = p_x deltaVector * speed;
          f = spec_forward cam;
          r = spec_right cam;
          p = cam_position cam
      in cam\<lparr>cam_position :=
           \<lparr>v_x = v_x p + a * v_x f + b * v_x r,
            v_y = max floor_y (v_y p + a * v_y f + b * v_y r),
            v_z = v_z p + a * v_z f + b * v_z r\<rparr>\<rparr>)"

section \<open>Invariants of the runs\<close>

text \<open>No pointer is stored and the stick is at rest.\<close>

definition joystick_idle :: "world \<Rightarrow> bool" where
  "joystick_idle w \<longleftrightarrow>
     joystickPointerId w = None \<and>
     joystickPos w = \<lparr>p_x = 0, p_y = 0\<rparr> \<and>
     joystickVector w = \<lparr>p_x = 0, p_y = 0\<rparr>"

text \<open>
  The three highlight levels that the handlers write: cleared, hover (turquoise at
  intensity 0.6) and selected (turquoise at intensity 1).
\<close>

definition no_highlight :: "world \<Rightarrow> obj_ref \<Rightarrow> bool" where
  "no_highlight w obj \<longleftrightarrow>
     emissive (material (meshes w obj)) = 0x000000 \<and>
     emissiveIntensity (material (meshes w obj)) = 0"

definition hover_highlight :: "world \<Rightarrow> obj_ref \<Rightarrow> bool" where
  "hover_highlight w obj \<longleftrightarrow>
     emissive (material (meshes w obj)) = turquoise \<and>
     emissiveIntensity (material (meshes w obj)) = 0.6"

definition selected_highlight :: "world \<Rightarrow> obj_ref \<Rightarrow> bool" where
  "selected_highlight w obj \<longleftrightarrow>
     emissive (material (meshes w obj)) = turquoise \<and>
     emissiveIntensity (material (meshes w obj)) = 1"

text \<open>The selected object, if there is one, carries the selected highlight.\<close>

definition selection_shown :: "world \<Rightarrow> bool" where
  "selection_shown w \<longleftrightarrow>
     (case selectedObject w of None \<Rightarrow> True | Some s \<Rightarrow> selected_highlight w s)"

section \<open>Example inputs\<close>

text \<open>A frame in which the orbit controls leave the camera alone and the ray hits \<open>xs\<close>.\<close>

definition frame_hitting :: "obj_ref list \<Rightarrow> frame" where
  "frame_hitting xs = \<lparr>controls_update = (\<lambda>c. c), clock_delta = 0.016, ray_intersects = xs\<rparr>"

text \<open>
  A state with a deflected joystick and a camera below the floor that looks along
  the negative z-axis.
\<close>

definition moving_world :: world where
  "moving_world = (initial_world 50)\<lparr>
      camera := \<lparr>cam_position = \<lparr>v_x = 0, v_y = 1, v_z = 25\<rparr>,
                 cam_up = \<lparr>v_x = 0, v_y = 1, v_z = 0\<rparr>,
                 cam_worldDirection = \<lparr>v_x = 0, v_y = 0, v_z = - 1\<rparr>\<rparr>,
      joystickPointerId := Some 0,
      joystickVector := \<lparr>p_x = 0.6, p_y = - 0.8\<rparr>\<rparr>"

section \<open>The joystick\<close>

subsection \<open>Fields that the other handlers leave alone\<close>

lemma animate_movement_joystick:
  "joystickPointerId (animate_movement w) = joystickPointerId w"
  "joystickPos (animate_movement w) = joystickPos w"
  "joystickVector (animate_movement w) = joystickVector w"
  by (simp_all add: animate_movement_def Let_def)

lemma set_emissive_fields:
  "joystickPointerId (set_emissive obj c i w) = joystickPointerId w"
  "joystickPos (set_emissive obj c i w) = joystickPos w"
  "joystickVector (set_emissive obj c i w) = joystickVector w"
  "hoveredObject (set_emissive obj c i w) = hoveredObject w"
  "selectedObject (set_emissive obj c i w) = selectedObject w"
  "spinningObjects (set_emissive obj c i w) = spinningObjects w"
  "objects (set_emissive obj c i w) = objects w"
  "camera (set_emissive obj c i w) = camera w"
  by (simp_all add: set_emissive_def)

lemma animate_hover_joystick:
  "joystickPointerId (animate_hover xs w) = joystickPointerId w"
  "joystickPos (animate_hover xs w) = joystickPos w"
  "joystickVector (animate_hover xs w) = joystickVector w"
  by (simp_all add: animate_hover_def Let_def set_emissive_fields
        split: list.splits option.splits)

lemma animate_joystick:
  "joystickPointerId (animate f w) = joystickPointerId w"
  "joystickPos (animate f w) = joystickPos w"
  "joystickVector (animate f w) = joystickVector w"
  by (simp_all add: animate_def Let_def animate_hover_joystick animate_spin_def
        animate_movement_joystick)

lemma window_joystick:
  "joystickPointerId (window_touchend w) = joystickPointerId w"
  "joystickPos (window_touchend w) = joystickPos w"
  "joystickVector (window_touchend w) = joystickVector w"
  "joystickPointerId (window_click w) = joystickPointerId w"
  "joystickPos (window_click w) = joystickPos w"
  "joystickVector (window_click w) = joystickVector w"
  by (simp_all add: window_touchend_def window_click_def Let_def set_emissive_fields
        split: option.splits)

lemma toggleSpin_joystick:
  "joystickPointerId (toggleSpin n w) = joystickPointerId w"
  "joystickPos (toggleSpin n w) = joystickPos w"
  "joystickVector (toggleSpin n w) = joystickVector w"
  by (simp_all add: toggleSpin_def split: option.splits)

subsection \<open>The stored pointer never survives touchstart\<close>

text \<open>
  \<^verbatim>\<open>setJoystickPosition\<close> assigns \<^verbatim>\<open>null\<close> to \<^verbatim>\<open>joystickPointerId\<close>, and the touchstart
  listener calls it right after storing the identifier. So a touchstart that starts
  with no pointer ends with no pointer.
\<close>

lemma touchstart_stores_no_pointer:
  "joystickPointerId w = None \<Longrightarrow> touchstart rect ts w = Inr w' \<Longrightarrow> joystickPointerId w' = None"
  by (cases ts) (auto simp: touchstart_def setJoystickPosition_def)

lemma dispatch_joystick_idle: "joystick_idle w \<Longrightarrow> joystick_idle (dispatch e w)"
proof (cases e)
  case (JoystickTouchStart rect ts)
  assume "joystick_idle w"
  then show ?thesis using JoystickTouchStart
    by (cases ts) (simp_all add: joystick_idle_def touchstart_def setJoystickPosition_def)
next
  case (JoystickTouchMove ts)
  assume "joystick_idle w"
  then show ?thesis using JoystickTouchMove
    by (simp add: joystick_idle_def touchmove_def)
next
  case (JoystickTouchEnd ts)
  assume "joystick_idle w"
  then show ?thesis using JoystickTouchEnd
    by (simp add: joystick_idle_def touchend_def split: option.splits)
next
  case JoystickTouchCancel
  then show ?thesis by (simp add: joystick_idle_def touchcancel_def)
next
  case (Frame f)
  assume "joystick_idle w"
  then show ?thesis using Frame by (simp add: joystick_idle_def animate_joystick)
next
  case WindowTouchEnd
  assume "joystick_idle w"
  then show ?thesis using WindowTouchEnd by (simp add: joystick_idle_def window_joystick)
next
  case WindowClick
  assume "joystick_idle w"
  then show ?thesis using WindowClick by (simp add: joystick_idle_def window_joystick)
next
  case (ToggleSpinClick n)
  assume "joystick_idle w"
  then show ?thesis using ToggleSpinClick by (simp add: joystick_idle_def toggleSpin_joystick)
qed

lemma run_joystick_idle: "joystick_idle w \<Longrightarrow> joystick_idle (run es w)"
  by (induction es arbitrary: w) (simp_all add: dispatch_joystick_idle)

lemma initial_joystick_idle: "joystick_idle (initial_world R)"
  by (simp add: joystick_idle_def initial_world_def)

text \<open>
  Claim C2. After every sequence of events from the initial state, the stored joystick
  vector has magnitude at most 1, and it is exactly (0, 0) whenever
  \<^verbatim>\<open>joystickPointerId\<close> is null. The sequence may also contain frames, taps, clicks
  and spin toggles.
\<close>

theorem joystickVector_bounded:
  "magnitude (joystickVector (run es (initial_world R))) \<le> 1 \<and>
   (joystickPointerId (run es (initial_world R)) = None \<longrightarrow>
      joystickVector (run es (initial_world R)) = \<lparr>p_x = 0, p_y = 0\<rparr>)"
proof -
  have "joystick_idle (run es (initial_world R))"
    by (rule run_joystick_idle [OF initial_joystick_idle])
  then show ?thesis by (simp add: joystick_idle_def magnitude_def)
qed

theorem joystickVector_bounded_witness:
  "joystickPointerId (run
      [JoystickTouchStart \<lparr>rect_left = 0, rect_top = 0, rect_width = 100, rect_height = 100\<rparr>
         [\<lparr>touch_identifier = 0, clientX = 50, clientY = 50\<rparr>],
       JoystickTouchEnd [\<lparr>touch_identifier = 0, clientX = 50, clientY = 50\<rparr>]]
      (initial_world 50)) = None \<and>
   joystickVector (run
      [JoystickTouchStart \<lparr>rect_left = 0, rect_top = 0, rect_width = 100, rect_height = 100\<rparr>
         [\<lparr>touch_identifier = 0, clientX = 50, clientY = 50\<rparr>],
       JoystickTouchEnd [\<lparr>touch_identifier = 0, clientX = 50, clientY = 50\<rparr>]]
      (initial_world 50)) = \<lparr>p_x = 0, p_y = 0\<rparr>"
  using joystickVector_bounded
    [of "[JoystickTouchStart \<lparr>rect_left = 0, rect_top = 0, rect_width = 100, rect_height = 100\<rparr>
            [\<lparr>touch_identifier = 0, clientX = 50, clientY = 50\<rparr>],
          JoystickTouchEnd [\<lparr>touch_identifier = 0, clientX = 50, clientY = 50\<rparr>]]" 50]
  by (simp add: touchstart_def setJoystickPosition_def touchend_def initial_world_def)

text \<open>
  Claim C8. A touchstart that arrives while \<^verbatim>\<open>joystickPointerId\<close> is not null changes
  nothing: the listener returns at its first statement, so the stored pointer, the
  stored offset, the vector and every other variable are as before.
\<close>

theorem touchstart_while_active:
  "joystickPointerId w \<noteq> None \<Longrightarrow>
     touchstart rect changedTouches w = Inr w \<and>
     dispatch (JoystickTouchStart rect changedTouches) w = w"
  by (simp add: touchstart_def)

theorem touchstart_while_active_witness:
  "joystickPointerId ((initial_world 50)\<lparr>joystickPointerId := Some 0,
       joystickPos := \<lparr>p_x = 30, p_y = 40\<rparr>,
       joystickVector := \<lparr>p_x = 0.6, p_y = 0.8\<rparr>\<rparr>) \<noteq> None \<and>
   touchstart \<lparr>rect_left = 0, rect_top = 0, rect_width = 100, rect_height = 100\<rparr>
     [\<lparr>touch_identifier = 1, clientX = 70, clientY = 20\<rparr>]
     ((initial_world 50)\<lparr>joystickPointerId := Some 0,
       joystickPos := \<lparr>p_x = 30, p_y = 40\<rparr>,
       joystickVector := \<lparr>p_x = 0.6, p_y = 0.8\<rparr>\<rparr>)
     = Inr ((initial_world 50)\<lparr>joystickPointerId := Some 0,
       joystickPos := \<lparr>p_x = 30, p_y = 40\<rparr>,
       joystickVector := \<lparr>p_x = 0.6, p_y = 0.8\<rparr>\<rparr>)"
  using touchstart_while_active
    [of "(initial_world 50)\<lparr>joystickPointerId := Some 0,
           joystickPos := \<lparr>p_x = 30, p_y = 40\<rparr>,
           joystickVector := \<lparr>p_x = 0.6, p_y = 0.8\<rparr>\<rparr>"
        "\<lparr>rect_left = 0, rect_top = 0, rect_width = 100, rect_height = 100\<rparr>"
        "[\<lparr>touch_identifier = 1, clientX = 70, clientY = 20\<rparr>]"]
  by simp

subsection \<open>The clamping of touchmove\<close>

text \<open>
  What the touchmove listener computes once it is past its guard, that is from a
  state in which an identifier is stored: cosine and sine of \<^verbatim>\<open>Math.atan2\<close> are the
  coordinates divided by the length, so the clamped offset has length \<open>R\<close> and the
  angle of the raw offset, and the vector is the clamped offset divided by \<open>R\<close>.
\<close>

lemma sqrt_one_plus_ratio:
  fixes x y :: real
  assumes "x \<noteq> 0"
  shows "sqrt (1 + (y / x)\<^sup>2) = sqrt (x * x + y * y) / \<bar>x\<bar>"
proof -
  have "1 + (y / x)\<^sup>2 = (x * x + y * y) / (x * x)"
    using assms by (simp add: power2_eq_square field_simps)
  then have "sqrt (1 + (y / x)\<^sup>2) = sqrt (x * x + y * y) / sqrt (x * x)"
    by (simp add: real_sqrt_divide)
  then show ?thesis by simp
qed

lemma cos_atan2:
  assumes "x \<noteq> 0 \<or> y \<noteq> 0"
  shows "cos (atan2 y x) = x / sqrt (x * x + y * y)"
proof (cases "x = 0")
  case True
  with assms have "y \<noteq> 0" by simp
  with True show ?thesis by (simp add: atan2_def)
next
  case False
  then show ?thesis
    by (simp add: atan2_def cos_arctan sqrt_one_plus_ratio)
qed

lemma sin_atan2:
  assumes "x \<noteq> 0 \<or> y \<noteq> 0"
  shows "sin (atan2 y x) = y / sqrt (x * x + y * y)"
proof (cases "x = 0")
  case True
  with assms have "y \<noteq> 0" by simp
  with True show ?thesis by (simp add: atan2_def real_sqrt_mult_self sgn_real_def abs_if)
next
  case False
  then show ?thesis
    by (simp add: atan2_def sin_arctan sqrt_one_plus_ratio abs_if)
qed

lemma atan2_scale:
  assumes "0 < k"
  shows "atan2 (k * y) (k * x) = atan2 y x"
  using assms by (simp add: atan2_def zero_less_mult_iff mult_less_0_iff zero_le_mult_iff)


lemma touchmove_active_pos:
  assumes act: "find (\<lambda>t. Some (touch_identifier t) = joystickPointerId w) ts = Some t"
    and dx: "dx = clientX t - p_x (joystickCenter w)"
    and dy: "dy = clientY t - p_y (joystickCenter w)"
    and far: "joystickRadius w < sqrt (dx * dx + dy * dy)"
    and pos: "0 < joystickRadius w"
  shows "joystickPos (touchmove ts w) =
           \<lparr>p_x = dx / sqrt (dx * dx + dy * dy) * joystickRadius w,
            p_y = dy / sqrt (dx * dx + dy * dy) * joystickRadius w\<rparr>"
    and "joystickVector (touchmove ts w) =
           \<lparr>p_x = p_x (joystickPos (touchmove ts w)) / joystickRadius w,
            p_y = p_y (joystickPos (touchmove ts w)) / joystickRadius w\<rparr>"
proof -
  from act have "Some (touch_identifier t) = joystickPointerId w"
    by (auto simp: find_Some_iff)
  then obtain i where some: "joystickPointerId w = Some i"
    by (cases "joystickPointerId w") simp_all
  from far pos have "0 < sqrt (dx * dx + dy * dy)" by linarith
  then have nz: "dx \<noteq> 0 \<or> dy \<noteq> 0" by auto
  show "joystickPos (touchmove ts w) =
           \<lparr>p_x = dx / sqrt (dx * dx + dy * dy) * joystickRadius w,
            p_y = dy / sqrt (dx * dx + dy * dy) * joystickRadius w\<rparr>"
    using some act far nz
    by (simp add: touchmove_def Let_def dx [symmetric] dy [symmetric] cos_atan2 sin_atan2)
  show "joystickVector (touchmove ts w) =
           \<lparr>p_x = p_x (joystickPos (touchmove ts w)) / joystickRadius w,
            p_y = p_y (joystickPos (touchmove ts w)) / joystickRadius w\<rparr>"
    using some act
    by (simp add: touchmove_def Let_def)
qed

lemma touchmove_polar_clamp:
  assumes act: "find (\<lambda>t. Some (touch_identifier t) = joystickPointerId w) ts = Some t"
    and dx: "dx = clientX t - p_x (joystickCenter w)"
    and dy: "dy = clientY t - p_y (joystickCenter w)"
    and far: "joystickRadius w < sqrt (dx * dx + dy * dy)"
    and pos: "0 < joystickRadius w"
  shows "magnitude (joystickPos (touchmove ts w)) = joystickRadius w"
    and "atan2 (p_y (joystickPos (touchmove ts w))) (p_x (joystickPos (touchmove ts w))) = atan2 dy dx"
    and "magnitude (joystickVector (touchmove ts w)) = 1"
proof -
  define d where "d = sqrt (dx * dx + dy * dy)"
  define R where "R = joystickRadius w"
  from far pos have dpos: "0 < d" unfolding d_def by linarith
  have dd: "d * d = dx * dx + dy * dy"
    unfolding d_def by (simp add: real_sqrt_mult_self abs_of_nonneg)
  have Rpos: "0 < R" using pos by (simp add: R_def)
  have P: "joystickPos (touchmove ts w) = \<lparr>p_x = dx / d * R, p_y = dy / d * R\<rparr>"
    unfolding d_def R_def by (rule touchmove_active_pos(1) [OF act dx dy far pos])
  have V: "joystickVector (touchmove ts w) = \<lparr>p_x = dx / d, p_y = dy / d\<rparr>"
    using touchmove_active_pos(2) [OF act dx dy far pos] Rpos
    by (simp add: P R_def [symmetric])
  have unit: "dx / d * (dx / d) + dy / d * (dy / d) = 1"
  proof -
    have "dx / d * (dx / d) + dy / d * (dy / d) = (dx * dx + dy * dy) / (d * d)"
      by (simp add: add_divide_distrib)
    also have "\<dots> = 1" using dpos by (simp add: dd [symmetric])
    finally show ?thesis .
  qed
  have "dx / d * R * (dx / d * R) + dy / d * R * (dy / d * R)
          = (dx / d * (dx / d) + dy / d * (dy / d)) * (R * R)"
    by (simp add: algebra_simps)
  also have "\<dots> = R * R"
    by (simp only: unit mult_1)
  finally have "magnitude (joystickPos (touchmove ts w)) = sqrt (R * R)"
    by (simp only: magnitude_def P Point.select_convs)
  then show "magnitude (joystickPos (touchmove ts w)) = joystickRadius w"
    using Rpos by (simp add: R_def)
  have "atan2 (dy / d * R) (dx / d * R) = atan2 ((R / d) * dy) ((R / d) * dx)"
    by (simp add: mult.commute)
  also have "\<dots> = atan2 dy dx"
    using dpos Rpos by (intro atan2_scale) simp
  finally show "atan2 (p_y (joystickPos (touchmove ts w))) (p_x (joystickPos (touchmove ts w))) = atan2 dy dx"
    by (simp add: P)
  show "magnitude (joystickVector (touchmove ts w)) = 1"
    by (simp only: magnitude_def V Point.select_convs unit real_sqrt_one)
qed

text \<open>
  Within the radius the offset is stored as it is, so with a positive radius the
  listener never stores a vector longer than 1.
\<close>

lemma touchmove_near:
  assumes act: "find (\<lambda>t. Some (touch_identifier t) = joystickPointerId w) ts = Some t"
    and dx: "dx = clientX t - p_x (joystickCenter w)"
    and dy: "dy = clientY t - p_y (joystickCenter w)"
    and near: "sqrt (dx * dx + dy * dy) \<le> joystickRadius w"
  shows "joystickPos (touchmove ts w) = \<lparr>p_x = dx, p_y = dy\<rparr>"
    and "joystickVector (touchmove ts w) = \<lparr>p_x = dx / joystickRadius w, p_y = dy / joystickRadius w\<rparr>"
proof -
  from act have "Some (touch_identifier t) = joystickPointerId w"
    by (auto simp: find_Some_iff)
  then obtain i where some: "joystickPointerId w = Some i"
    by (cases "joystickPointerId w") simp_all
  show "joystickPos (touchmove ts w) = \<lparr>p_x = dx, p_y = dy\<rparr>"
    using some act near
    by (simp add: touchmove_def Let_def dx [symmetric] dy [symmetric])
  show "joystickVector (touchmove ts w) = \<lparr>p_x = dx / joystickRadius w, p_y = dy / joystickRadius w\<rparr>"
    using some act near
    by (simp add: touchmove_def Let_def dx [symmetric] dy [symmetric])
qed

lemma touchmove_vector_bounded:
  assumes R: "0 < joystickRadius w" and before: "magnitude (joystickVector w) \<le> 1"
  shows "magnitude (joystickVector (touchmove ts w)) \<le> 1"
proof (cases "find (\<lambda>t. Some (touch_identifier t) = joystickPointerId w) ts")
  case None
  then have "touchmove ts w = w" by (simp add: touchmove_def)
  with before show ?thesis by simp
next
  case (Some t)
  define dx where "dx = clientX t - p_x (joystickCenter w)"
  define dy where "dy = clientY t - p_y (joystickCenter w)"
  show ?thesis
  proof (cases "joystickRadius w < sqrt (dx * dx + dy * dy)")
    case True
    from touchmove_polar_clamp(3) [OF Some dx_def dy_def True R] show ?thesis by simp
  next
    case False
    then have near: "sqrt (dx * dx + dy * dy) \<le> joystickRadius w" by simp
    have "dx / joystickRadius w * (dx / joystickRadius w) + dy / joystickRadius w * (dy / joystickRadius w)
            = (dx * dx + dy * dy) / (joystickRadius w * joystickRadius w)"
      by (simp add: add_divide_distrib)
    then have "magnitude (joystickVector (touchmove ts w))
                 = sqrt ((dx * dx + dy * dy) / (joystickRadius w * joystickRadius w))"
      by (simp only: magnitude_def touchmove_near(2) [OF Some dx_def dy_def near] Point.select_convs)
    also have "\<dots> = sqrt (dx * dx + dy * dy) / joystickRadius w"
      using R by (simp add: real_sqrt_divide)
    also have "\<dots> \<le> 1"
      using R near by simp
    finally show ?thesis .
  qed
qed

text \<open>
  Claim C1, at the scenario of the specification: a touchstart at the centre of a
  joystick of radius 50, then a touchmove of the same touch to the offset
  \<open>(50 \<surd>2, 50 \<surd>2)\<close>, of length 100 at 45 degrees. The touchstart leaves
  \<^verbatim>\<open>joystickPointerId\<close> null, the touchmove returns at its guard, and the stored offset
  and vector stay (0, 0) instead of becoming \<open>(50 / \<surd>2, 50 / \<surd>2)\<close> and
  \<open>(1 / \<surd>2, 1 / \<surd>2)\<close>.
\<close>

theorem touchmove_after_touchstart_is_dropped:
  "joystickPointerId (run
      [JoystickTouchStart \<lparr>rect_left = 0, rect_top = 0, rect_width = 100, rect_height = 100\<rparr>
         [\<lparr>touch_identifier = 0, clientX = 50, clientY = 50\<rparr>],
       JoystickTouchMove
         [\<lparr>touch_identifier = 0, clientX = 50 + 50 * sqrt 2, clientY = 50 + 50 * sqrt 2\<rparr>]]
      (initial_world 50)) = None \<and>
   joystickPos (run
      [JoystickTouchStart \<lparr>rect_left = 0, rect_top = 0, rect_width = 100, rect_height = 100\<rparr>
         [\<lparr>touch_identifier = 0, clientX = 50, clientY = 50\<rparr>],
       JoystickTouchMove
         [\<lparr>touch_identifier = 0, clientX = 50 + 50 * sqrt 2, clientY = 50 + 50 * sqrt 2\<rparr>]]
      (initial_world 50)) = \<lparr>p_x = 0, p_y = 0\<rparr> \<and>
   joystickVector (run
      [JoystickTouchStart \<lparr>rect_left = 0, rect_top = 0, rect_width = 100, rect_height = 100\<rparr>
         [\<lparr>touch_identifier = 0, clientX = 50, clientY = 50\<rparr>],
       JoystickTouchMove
         [\<lparr>touch_identifier = 0, clientX = 50 + 50 * sqrt 2, clientY = 50 + 50 * sqrt 2\<rparr>]]
      (initial_world 50)) = \<lparr>p_x = 0, p_y = 0\<rparr>"
  by (simp add: touchstart_def setJoystickPosition_def touchmove_def initial_world_def)

text \<open>
  The same touchmove from a state in which the identifier 0 is stored and the centre
  is (50, 50): the listener stores the polar-clamped offset and the unit vector at
  45 degrees.
\<close>

lemma touchmove_45_degrees_when_stored:
  "joystickVector (touchmove
      [\<lparr>touch_identifier = 0, clientX = 50 + 50 * sqrt 2, clientY = 50 + 50 * sqrt 2\<rparr>]
      ((initial_world 50)\<lparr>joystickPointerId := Some 0,
         joystickCenter := \<lparr>p_x = 50, p_y = 50\<rparr>\<rparr>))
   = \<lparr>p_x = 1 / sqrt 2, p_y = 1 / sqrt 2\<rparr>"
proof -
  let ?w = "(initial_world 50)\<lparr>joystickPointerId := Some 0,
              joystickCenter := \<lparr>p_x = 50, p_y = 50\<rparr>\<rparr>"
  let ?ts = "[\<lparr>touch_identifier = 0, clientX = 50 + 50 * sqrt 2, clientY = 50 + 50 * sqrt 2\<rparr>]"
  have len: "sqrt (50 * sqrt 2 * (50 * sqrt 2) + 50 * sqrt 2 * (50 * sqrt 2)) = 100"
  proof -
    have "50 * sqrt 2 * (50 * sqrt 2) + 50 * sqrt 2 * (50 * sqrt 2) = (100::real) * 100"
      by simp
    then show ?thesis by (simp only: real_sqrt_abs2 abs_numeral)
  qed
  have act: "find (\<lambda>t. Some (touch_identifier t) = joystickPointerId ?w) ?ts = Some (hd ?ts)"
    by simp
  have R: "joystickRadius ?w = 50"
    by (simp add: initial_world_def)
  have dx: "50 * sqrt 2 = clientX (hd ?ts) - p_x (joystickCenter ?w)"
    by simp
  have dy: "50 * sqrt 2 = clientY (hd ?ts) - p_y (joystickCenter ?w)"
    by simp
  have far: "joystickRadius ?w < sqrt (50 * sqrt 2 * (50 * sqrt 2) + 50 * sqrt 2 * (50 * sqrt 2))"
    by (simp only: len R)
  have pos: "0 < joystickRadius ?w"
    by (simp only: R)
  have P: "joystickPos (touchmove ?ts ?w) = \<lparr>p_x = 50 * sqrt 2 / 100 * 50, p_y = 50 * sqrt 2 / 100 * 50\<rparr>"
    using touchmove_active_pos(1) [OF act dx dy far pos] by (simp only: len R)
  have half: "50 * sqrt 2 / 100 * 50 / 50 = 1 / sqrt 2"
    by (simp add: real_div_sqrt)
  show ?thesis
    using touchmove_active_pos(2) [OF act dx dy far pos]
    by (simp only: P R Point.select_convs half)
qed



section \<open>The movement step\<close>

lemma Point_zero_iff: "p = \<lparr>p_x = 0, p_y = 0\<rparr> \<longleftrightarrow> p_x p = 0 \<and> p_y p = 0"
  by (cases p) simp

lemma animate_movement_position:
  assumes "joystickVector w \<noteq> \<lparr>p_x = 0, p_y = 0\<rparr>"
  shows "cam_position (camera (animate_movement w)) =
           cam_position (spec_applyMovement (camera w) (joystickVector w) 0.15 1.2)"
proof -
  from assms have run: "p_x (joystickVector w) \<noteq> 0 \<or> p_y (joystickVector w) \<noteq> 0"
    by (simp add: Point_zero_iff)
  show ?thesis
    using run
    by (simp add: animate_movement_def spec_applyMovement_def spec_forward_def spec_right_def
          addScaledVector_def Let_def max_def mult.commute)
qed

text \<open>
  Claim C3. When the movement block runs, that is when the joystick vector is not
  (0, 0), the camera position moves by \<open>- y * 0.15\<close> along the forward direction
  (the world direction with its y-component zeroed, renormalised) and by \<open>x * 0.15\<close>
  along the cross product of the camera's up vector and forward (renormalised), and
  then the height is raised to 1.2 if it is below; nothing else in the state changes.
\<close>

theorem animate_movement_refines_spec:
  "joystickVector w \<noteq> \<lparr>p_x = 0, p_y = 0\<rparr> \<Longrightarrow>
     animate_movement w = w\<lparr>camera := spec_applyMovement (camera w) (joystickVector w) 0.15 1.2\<rparr>"
proof -
  assume nz: "joystickVector w \<noteq> \<lparr>p_x = 0, p_y = 0\<rparr>"
  then have run: "p_x (joystickVector w) \<noteq> 0 \<or> p_y (joystickVector w) \<noteq> 0"
    by (simp add: Point_zero_iff)
  have "animate_movement w =
          w\<lparr>camera := (camera w)\<lparr>cam_position := cam_position (camera (animate_movement w))\<rparr>\<rparr>"
    using run by (simp add: animate_movement_def Let_def)
  also have "\<dots> = w\<lparr>camera := (camera w)\<lparr>cam_position :=
          cam_position (spec_applyMovement (camera w) (joystickVector w) 0.15 1.2)\<rparr>\<rparr>"
    by (simp only: animate_movement_position [OF nz])
  also have "\<dots> = w\<lparr>camera := spec_applyMovement (camera w) (joystickVector w) 0.15 1.2\<rparr>"
    by (simp add: spec_applyMovement_def Let_def)
  finally show ?thesis .
qed

theorem animate_movement_refines_spec_witness:
  "joystickVector moving_world \<noteq> \<lparr>p_x = 0, p_y = 0\<rparr> \<and>
   cam_position (camera (animate_movement moving_world)) = \<lparr>v_x = - 0.09, v_y = 1.2, v_z = 24.88\<rparr>"
  using animate_movement_refines_spec [of moving_world]
  by (simp add: moving_world_def spec_applyMovement_def spec_forward_def spec_right_def
        normalize_def crossVectors_def divideScalar_def multiplyScalar_def length_v_def Let_def)

text \<open>
  For a camera that looks along the negative z-axis with the y-axis up, the cross
  product of up and forward is the negative x-axis.
\<close>

lemma cross_up_forward_example:
  "normalize (crossVectors \<lparr>v_x = 0, v_y = 1, v_z = 0\<rparr> \<lparr>v_x = 0, v_y = 0, v_z = - 1\<rparr>)
     = \<lparr>v_x = - 1, v_y = 0, v_z = 0\<rparr>"
  by (simp add: normalize_def crossVectors_def divideScalar_def multiplyScalar_def length_v_def)

lemma animate_spin_camera: "camera (animate_spin d w) = camera w"
  by (simp add: animate_spin_def)

lemma animate_hover_camera: "camera (animate_hover xs w) = camera w"
  by (simp add: animate_hover_def Let_def set_emissive_def split: list.splits option.splits)

lemma animate_movement_floor:
  assumes "joystickVector w \<noteq> \<lparr>p_x = 0, p_y = 0\<rparr>"
  shows "1.2 \<le> v_y (cam_position (camera (animate_movement w)))"
proof -
  from assms have run: "p_x (joystickVector w) \<noteq> 0 \<or> p_y (joystickVector w) \<noteq> 0"
    by (simp add: Point_zero_iff)
  then show ?thesis
    by (simp add: animate_movement_def Let_def)
qed

text \<open>
  Claim C4. After the movement block has run (the joystick vector is not (0, 0)), the
  camera's height is at least 1.2, for every camera and every such vector; the rest of
  the frame does not move the camera, so this also holds at the end of the frame.
\<close>

theorem camera_height_floor:
  "joystickVector w \<noteq> \<lparr>p_x = 0, p_y = 0\<rparr> \<Longrightarrow>
     1.2 \<le> v_y (cam_position (camera (animate_movement w))) \<and>
     1.2 \<le> v_y (cam_position (camera (animate f w)))"
proof -
  assume nz: "joystickVector w \<noteq> \<lparr>p_x = 0, p_y = 0\<rparr>"
  let ?w1 = "w\<lparr>camera := controls_update f (camera w)\<rparr>"
  have "joystickVector ?w1 \<noteq> \<lparr>p_x = 0, p_y = 0\<rparr>" using nz by simp
  then have "1.2 \<le> v_y (cam_position (camera (animate_movement ?w1)))"
    by (rule animate_movement_floor)
  moreover have "camera (animate f w) = camera (animate_movement ?w1)"
    by (simp add: animate_def Let_def animate_hover_camera animate_spin_camera)
  ultimately show ?thesis using animate_movement_floor [OF nz] by simp
qed

theorem camera_height_floor_witness:
  "joystickVector moving_world \<noteq> \<lparr>p_x = 0, p_y = 0\<rparr> \<and>
   v_y (cam_position (camera moving_world)) = 1 \<and>
   1.2 \<le> v_y (cam_position (camera (animate_movement moving_world))) \<and>
   1.2 \<le> v_y (cam_position (camera (animate (frame_hitting []) moving_world)))"
  using camera_height_floor [of moving_world "frame_hitting []"]
  by (simp add: moving_world_def)

section \<open>Hover and selection\<close>

lemma set_emissive_other: "obj' \<noteq> obj \<Longrightarrow> meshes (set_emissive obj c i w) obj' = meshes w obj'"
  by (simp add: set_emissive_def)

lemma set_emissive_same:
  "emissive (material (meshes (set_emissive obj c i w) obj)) = c"
  "emissiveIntensity (material (meshes (set_emissive obj c i w) obj)) = i"
  by (simp_all add: set_emissive_def)

subsection \<open>The frame leaves the selected object alone\<close>

lemma animate_hover_selected: "selectedObject (animate_hover xs w) = selectedObject w"
  by (simp add: animate_hover_def Let_def set_emissive_fields split: list.splits option.splits)

lemma animate_hover_keeps_selected_mesh:
  "selectedObject w = Some s \<Longrightarrow> meshes (animate_hover xs w) s = meshes w s"
  by (auto simp: animate_hover_def Let_def set_emissive_fields set_emissive_other
        split: list.splits option.splits)

lemma spin_obj_material: "material (spin_obj d x m obj) = material (m obj)"
  by (simp add: spin_obj_def)

lemma fold_spin_material: "material (fold (spin_obj d) xs m obj) = material (m obj)"
  by (induction xs arbitrary: m) (simp_all add: spin_obj_material)

lemma animate_spin_material: "material (meshes (animate_spin d w) obj) = material (meshes w obj)"
  by (simp add: animate_spin_def fold_spin_material)

lemma animate_spin_selected:
  "selectedObject (animate_spin d w) = selectedObject w"
  "hoveredObject (animate_spin d w) = hoveredObject w"
  by (simp_all add: animate_spin_def)

lemma animate_movement_scene:
  "selectedObject (animate_movement w) = selectedObject w"
  "hoveredObject (animate_movement w) = hoveredObject w"
  "meshes (animate_movement w) = meshes w"
  "spinningObjects (animate_movement w) = spinningObjects w"
  by (simp_all add: animate_movement_def Let_def)

lemma animate_selected: "selectedObject (animate f w) = selectedObject w"
  by (simp add: animate_def Let_def animate_hover_selected animate_spin_selected animate_movement_scene)

lemma animate_keeps_selected_material:
  assumes "selectedObject w = Some s"
  shows "material (meshes (animate f w) s) = material (meshes w s)"
proof -
  let ?w1 = "w\<lparr>camera := controls_update f (camera w)\<rparr>"
  let ?w3 = "animate_spin (clock_delta f) (animate_movement ?w1)"
  have sel: "selectedObject ?w3 = Some s"
    using assms by (simp add: animate_spin_selected animate_movement_scene)
  have "animate f w = animate_hover (ray_intersects f) ?w3"
    by (simp add: animate_def Let_def)
  then have "meshes (animate f w) s = meshes ?w3 s"
    by (simp add: animate_hover_keeps_selected_mesh [OF sel])
  then show ?thesis
    by (simp add: animate_spin_material animate_movement_scene)
qed

subsection \<open>Tap and click\<close>

lemma window_click_eq: "window_click w = window_touchend w"
  by (simp add: window_click_def window_touchend_def)

lemma window_touchend_select:
  assumes "hoveredObject w = Some h" and "selectedObject w \<noteq> Some h"
  shows "selectedObject (window_touchend w) = Some h"
    and "hoveredObject (window_touchend w) = Some h"
    and "selected_highlight (window_touchend w) h"
    and "selectedObject w = Some s \<Longrightarrow> no_highlight (window_touchend w) s"
    and "obj \<noteq> h \<Longrightarrow> selectedObject w \<noteq> Some obj \<Longrightarrow>
           meshes (window_touchend w) obj = meshes w obj"
  using assms
  by (auto simp: window_touchend_def Let_def set_emissive_def selected_highlight_def
        no_highlight_def split: option.splits)

lemma window_touchend_deselect:
  assumes "hoveredObject w = None" and "selectedObject w = Some s"
  shows "selectedObject (window_touchend w) = None"
    and "hoveredObject (window_touchend w) = None"
    and "no_highlight (window_touchend w) s"
    and "obj \<noteq> s \<Longrightarrow> meshes (window_touchend w) obj = meshes w obj"
  using assms
  by (auto simp: window_touchend_def set_emissive_def no_highlight_def)

lemma window_touchend_same:
  assumes "hoveredObject w = Some h" and "selectedObject w = Some h"
  shows "window_touchend w = w"
  using assms by (simp add: window_touchend_def)

lemma window_touchend_nothing:
  assumes "hoveredObject w = None" and "selectedObject w = None"
  shows "window_touchend w = w"
  using assms by (simp add: window_touchend_def)

lemmas eval_defs = animate_def animate_movement_def animate_spin_def animate_hover_def
  window_click_def window_touchend_def set_emissive_def initial_world_def Let_def
  frame_hitting_def createPrimitive_def

text \<open>
  Claim C5. On a tap (and equally on a click): if an object is hovered and it is not
  the selection, the old selection, if any, is cleared, the hovered object becomes the
  selection and gets the selected highlight, and no other mesh changes; if nothing is
  hovered and an object is selected, it is cleared and the selection becomes empty;
  if the hovered object is the selection, the state is unchanged.
\<close>

theorem tap_selection:
  "(hoveredObject w = Some h \<and> selectedObject w \<noteq> Some h \<longrightarrow>
      selectedObject (window_touchend w) = Some h \<and>
      hoveredObject (window_touchend w) = Some h \<and>
      selected_highlight (window_touchend w) h \<and>
      (\<forall>s. selectedObject w = Some s \<longrightarrow> no_highlight (window_touchend w) s) \<and>
      (\<forall>obj. obj \<noteq> h \<and> selectedObject w \<noteq> Some obj \<longrightarrow>
         meshes (window_touchend w) obj = meshes w obj)) \<and>
   (hoveredObject w = None \<and> selectedObject w = Some s \<longrightarrow>
      selectedObject (window_touchend w) = None \<and>
      hoveredObject (window_touchend w) = None \<and>
      no_highlight (window_touchend w) s \<and>
      (\<forall>obj. obj \<noteq> s \<longrightarrow> meshes (window_touchend w) obj = meshes w obj)) \<and>
   (hoveredObject w = Some h \<and> selectedObject w = Some h \<longrightarrow> window_touchend w = w) \<and>
   window_click w = window_touchend w"
  using window_touchend_select [of w h] window_touchend_deselect [of w s]
    window_touchend_same [of w h] window_click_eq [of w]
  by blast

theorem tap_selection_witness:
  "hoveredObject (run [Frame (frame_hitting [0]), WindowClick, Frame (frame_hitting [1])] (initial_world 50)) = Some 1 \<and>
   selectedObject (run [Frame (frame_hitting [0]), WindowClick, Frame (frame_hitting [1])] (initial_world 50)) = Some 0 \<and>
   selectedObject (window_touchend
     (run [Frame (frame_hitting [0]), WindowClick, Frame (frame_hitting [1])] (initial_world 50))) = Some 1 \<and>
   selected_highlight (window_touchend
     (run [Frame (frame_hitting [0]), WindowClick, Frame (frame_hitting [1])] (initial_world 50))) 1 \<and>
   no_highlight (window_touchend
     (run [Frame (frame_hitting [0]), WindowClick, Frame (frame_hitting [1])] (initial_world 50))) 0 \<and>
   hoveredObject (run [Frame (frame_hitting [0]), WindowClick, Frame (frame_hitting [])] (initial_world 50)) = None \<and>
   selectedObject (run [Frame (frame_hitting [0]), WindowClick, Frame (frame_hitting [])] (initial_world 50)) = Some 0 \<and>
   selectedObject (window_touchend
     (run [Frame (frame_hitting [0]), WindowClick, Frame (frame_hitting [])] (initial_world 50))) = None \<and>
   no_highlight (window_touchend
     (run [Frame (frame_hitting [0]), WindowClick, Frame (frame_hitting [])] (initial_world 50))) 0 \<and>
   hoveredObject (run [Frame (frame_hitting [0]), WindowClick] (initial_world 50)) = Some 0 \<and>
   selectedObject (run [Frame (frame_hitting [0]), WindowClick] (initial_world 50)) = Some 0 \<and>
   window_touchend (run [Frame (frame_hitting [0]), WindowClick] (initial_world 50))
     = run [Frame (frame_hitting [0]), WindowClick] (initial_world 50)"
proof -
  let ?A = "run [Frame (frame_hitting [0]), WindowClick, Frame (frame_hitting [1])] (initial_world 50)"
  let ?B = "run [Frame (frame_hitting [0]), WindowClick, Frame (frame_hitting [])] (initial_world 50)"
  let ?C = "run [Frame (frame_hitting [0]), WindowClick] (initial_world 50)"
  have A: "hoveredObject ?A = Some 1" "selectedObject ?A = Some 0"
    by (simp_all add: eval_defs)
  have B: "hoveredObject ?B = None" "selectedObject ?B = Some 0"
    by (simp_all add: eval_defs)
  have C: "hoveredObject ?C = Some 0" "selectedObject ?C = Some 0"
    by (simp_all add: eval_defs)
  from A tap_selection [of ?A 1 0]
  have "selectedObject (window_touchend ?A) = Some 1 \<and> selected_highlight (window_touchend ?A) 1
          \<and> no_highlight (window_touchend ?A) 0"
    by simp
  moreover from B tap_selection [of ?B 1 0]
  have "selectedObject (window_touchend ?B) = None \<and> no_highlight (window_touchend ?B) 0"
    by simp
  moreover from C tap_selection [of ?C 0 0]
  have "window_touchend ?C = ?C"
    by simp
  ultimately show ?thesis using A B C by simp
qed

subsection \<open>The selection keeps its highlight\<close>

lemma window_touchend_selection_shown:
  "selection_shown w \<Longrightarrow> selection_shown (window_touchend w)"
  by (auto simp: selection_shown_def window_touchend_def Let_def set_emissive_def
        selected_highlight_def split: option.splits)

lemma animate_selection_shown:
  assumes "selection_shown w"
  shows "selection_shown (animate f w)"
proof (cases "selectedObject w")
  case None
  then show ?thesis by (simp add: selection_shown_def animate_selected)
next
  case (Some s)
  with assms have "selected_highlight w s" by (simp add: selection_shown_def)
  then have "selected_highlight (animate f w) s"
    by (simp add: selected_highlight_def animate_keeps_selected_material [OF Some])
  then show ?thesis by (simp add: selection_shown_def animate_selected Some)
qed

lemma joystick_scene:
  "selectedObject (touchmove ts w) = selectedObject w"
  "meshes (touchmove ts w) = meshes w"
  "selectedObject (touchend ts w) = selectedObject w"
  "meshes (touchend ts w) = meshes w"
  "selectedObject (touchcancel w) = selectedObject w"
  "meshes (touchcancel w) = meshes w"
  "selectedObject (toggleSpin n w) = selectedObject w"
  "meshes (toggleSpin n w) = meshes w"
  by (simp_all add: touchmove_def touchend_def touchcancel_def toggleSpin_def Let_def
        split: option.splits)

lemma touchstart_scene:
  "selectedObject (dispatch (JoystickTouchStart rect ts) w) = selectedObject w"
  "meshes (dispatch (JoystickTouchStart rect ts) w) = meshes w"
  by (simp_all add: touchstart_def setJoystickPosition_def split: list.splits)

lemma dispatch_no_tap:
  assumes "\<not> is_tap e" and "selectedObject w = Some s"
  shows "selectedObject (dispatch e w) = Some s"
    and "material (meshes (dispatch e w) s) = material (meshes w s)"
  using assms
  by (cases e; simp add: joystick_scene touchstart_scene animate_selected
        animate_keeps_selected_material del: dispatch.simps(1))+

lemma run_no_tap:
  assumes "\<not> list_ex is_tap es" and "selectedObject w = Some s"
  shows "selectedObject (run es w) = Some s \<and>
         material (meshes (run es w) s) = material (meshes w s)"
  using assms
proof (induction es arbitrary: w)
  case Nil
  then show ?case by simp
next
  case (Cons e es)
  then have e: "\<not> is_tap e" and es: "\<not> list_ex is_tap es" by simp_all
  note step = dispatch_no_tap [OF e Cons.prems(2)]
  from Cons.IH [OF es step(1)] step(2) show ?case by simp
qed

lemma dispatch_selection_shown: "selection_shown w \<Longrightarrow> selection_shown (dispatch e w)"
proof (cases e)
  case (Frame f)
  assume "selection_shown w"
  then show ?thesis using Frame by (simp add: animate_selection_shown)
next
  case WindowTouchEnd
  assume "selection_shown w"
  then show ?thesis using WindowTouchEnd by (simp add: window_touchend_selection_shown)
next
  case WindowClick
  assume "selection_shown w"
  then show ?thesis using WindowClick
    by (simp add: window_click_eq window_touchend_selection_shown)
next
  case (JoystickTouchStart rect ts)
  assume "selection_shown w"
  then show ?thesis unfolding JoystickTouchStart
    by (simp add: selection_shown_def selected_highlight_def touchstart_scene
          del: dispatch.simps(1) split: option.splits)
qed (simp_all add: selection_shown_def selected_highlight_def joystick_scene
      split: option.splits)

lemma run_selection_shown: "selection_shown w \<Longrightarrow> selection_shown (run es w)"
  by (induction es arbitrary: w) (simp_all add: dispatch_selection_shown)

lemma initial_selection_shown: "selection_shown (initial_world R)"
  by (simp add: selection_shown_def initial_world_def)

text \<open>
  Claim C6. In every state reached from the initial state by frames, taps, clicks (and
  any of the other events), an object that is both hovered and selected has the
  selected highlight, turquoise at intensity 1, and so not the hover highlight.
\<close>

theorem hovered_and_selected_shows_selected:
  "hoveredObject (run es (initial_world R)) = Some obj \<Longrightarrow>
   selectedObject (run es (initial_world R)) = Some obj \<Longrightarrow>
     selected_highlight (run es (initial_world R)) obj \<and>
     \<not> hover_highlight (run es (initial_world R)) obj"
proof -
  assume sel: "selectedObject (run es (initial_world R)) = Some obj"
  have "selection_shown (run es (initial_world R))"
    by (rule run_selection_shown [OF initial_selection_shown])
  with sel have "selected_highlight (run es (initial_world R)) obj"
    by (simp add: selection_shown_def)
  then show ?thesis by (simp add: selected_highlight_def hover_highlight_def)
qed

theorem hovered_and_selected_shows_selected_witness:
  "hoveredObject (run [Frame (frame_hitting [1]), WindowClick] (initial_world 50)) = Some 1 \<and>
   selectedObject (run [Frame (frame_hitting [1]), WindowClick] (initial_world 50)) = Some 1 \<and>
   selected_highlight (run [Frame (frame_hitting [1]), WindowClick] (initial_world 50)) 1 \<and>
   \<not> hover_highlight (run [Frame (frame_hitting [1]), WindowClick] (initial_world 50)) 1"
proof -
  let ?w = "run [Frame (frame_hitting [1]), WindowClick] (initial_world 50)"
  have h: "hoveredObject ?w = Some 1" and s: "selectedObject ?w = Some 1"
    by (simp_all add: eval_defs)
  from hovered_and_selected_shows_selected [OF h s] h s show ?thesis by simp
qed

text \<open>
  Claim C7. While an object is selected, no sequence of frames (nor of any events other
  than a tap or a click) changes the selection or the material of the selected object,
  whatever the ray hits: an object with the selected highlight keeps it.
\<close>

theorem selected_highlight_persists:
  "selectedObject w = Some s \<Longrightarrow> \<not> list_ex is_tap es \<Longrightarrow>
     selectedObject (run es w) = Some s \<and>
     material (meshes (run es w) s) = material (meshes w s) \<and>
     (selected_highlight w s \<longrightarrow> selected_highlight (run es w) s)"
  using run_no_tap [of es w s] by (simp add: selected_highlight_def)

theorem selected_highlight_persists_witness:
  "selectedObject (run [Frame (frame_hitting [1]), WindowClick] (initial_world 50)) = Some 1 \<and>
   \<not> list_ex is_tap [Frame (frame_hitting [2]), Frame (frame_hitting []), Frame (frame_hitting [1])] \<and>
   selected_highlight (run [Frame (frame_hitting [1]), WindowClick] (initial_world 50)) 1 \<and>
   selectedObject (run [Frame (frame_hitting [2]), Frame (frame_hitting []), Frame (frame_hitting [1])]
     (run [Frame (frame_hitting [1]), WindowClick] (initial_world 50))) = Some 1 \<and>
   selected_highlight (run [Frame (frame_hitting [2]), Frame (frame_hitting []), Frame (frame_hitting [1])]
     (run [Frame (frame_hitting [1]), WindowClick] (initial_world 50))) 1"
proof -
  let ?w = "run [Frame (frame_hitting [1]), WindowClick] (initial_world 50)"
  let ?es = "[Frame (frame_hitting [2]), Frame (frame_hitting []), Frame (frame_hitting [1])]"
  have s: "selectedObject ?w = Some 1"
    by (simp add: eval_defs)
  have hl: "selected_highlight ?w 1"
    by (simp add: selected_highlight_def eval_defs)
  have nt: "\<not> list_ex is_tap ?es"
    by simp
  from selected_highlight_persists [OF s nt] s hl nt show ?thesis by simp
qed

text \<open>
  The scenario of the specification: the ray hits the second object, a click selects
  it, the ray moves to the third object. The third has the hover highlight and the
  second keeps the selected one.
\<close>

lemma hover_next_to_selection:
  "hover_highlight (run [Frame (frame_hitting [1]), WindowClick, Frame (frame_hitting [2])] (initial_world 50)) 2"
  "selected_highlight (run [Frame (frame_hitting [1]), WindowClick, Frame (frame_hitting [2])] (initial_world 50)) 1"
  by (simp_all add: selected_highlight_def hover_highlight_def eval_defs)

section \<open>Spinning objects\<close>

subsection \<open>The toggle\<close>

lemma toggleSpin_objects: "objects (toggleSpin n w) = objects w"
  by (simp add: toggleSpin_def split: option.splits)

lemma toggleSpin_not_found:
  "find (\<lambda>entry. snd entry = n) (objects w) = None \<Longrightarrow> toggleSpin n w = w"
  by (simp add: toggleSpin_def)

lemma toggleSpin_found:
  assumes "n \<noteq> []" and "find (\<lambda>entry. snd entry = n) (objects w) = Some (obj, nm)"
  shows "set (spinningObjects (toggleSpin n w)) =
           (if obj \<in> set (spinningObjects w)
            then set (spinningObjects w) - {obj}
            else insert obj (set (spinningObjects w)))"
  using assms by (auto simp: toggleSpin_def)

lemma toggleSpin_twice:
  "set (spinningObjects (toggleSpin n (toggleSpin n w))) = set (spinningObjects w)"
proof (cases "n = []")
  case True
  then show ?thesis by (simp add: toggleSpin_def)
next
  case False
  show ?thesis
  proof (cases "find (\<lambda>entry. snd entry = n) (objects w)")
    case None
    then show ?thesis by (simp add: toggleSpin_not_found)
  next
    case (Some entry)
    obtain obj nm where entry: "entry = (obj, nm)" by (cases entry)
    have f1: "find (\<lambda>entry. snd entry = n) (objects w) = Some (obj, nm)"
      using Some entry by simp
    then have f2: "find (\<lambda>entry. snd entry = n) (objects (toggleSpin n w)) = Some (obj, nm)"
      by (simp add: toggleSpin_objects)
    show ?thesis
      unfolding toggleSpin_found [OF False f2] toggleSpin_found [OF False f1]
      by auto
  qed
qed

lemma toggleSpin_other:
  assumes "find (\<lambda>entry. snd entry = n) (objects w) = Some (obj, nm)" and "obj' \<noteq> obj"
  shows "obj' \<in> set (spinningObjects (toggleSpin n w)) \<longleftrightarrow> obj' \<in> set (spinningObjects w)"
  using assms by (auto simp: toggleSpin_def)

lemma toggleSpin_flips:
  assumes "n \<noteq> []" and "find (\<lambda>entry. snd entry = n) (objects w) = Some (obj, nm)"
  shows "obj \<in> set (spinningObjects (toggleSpin n w)) \<longleftrightarrow> obj \<notin> set (spinningObjects w)"
  using assms by (auto simp: toggleSpin_def)

lemma toggleSpin_distinct:
  "distinct (spinningObjects w) \<Longrightarrow> distinct (spinningObjects (toggleSpin n w))"
  by (auto simp: toggleSpin_def distinct_removeAll split: option.splits)

text \<open>
  Claim C9. Toggling the same name twice gives back the set of spinning objects, as a
  set of members; an object other than the one the name resolves to keeps its
  membership; and the object the name resolves to changes its membership, so the
  toggle is not the identity. (The Set's insertion order may differ after two toggles.)
\<close>

theorem toggleSpin_involution:
  "set (spinningObjects (toggleSpin n (toggleSpin n w))) = set (spinningObjects w) \<and>
   (map_option fst (find (\<lambda>entry. snd entry = n) (objects w)) \<noteq> Some obj' \<longrightarrow>
      (obj' \<in> set (spinningObjects (toggleSpin n w)) \<longleftrightarrow> obj' \<in> set (spinningObjects w))) \<and>
   (n \<noteq> [] \<and> map_option fst (find (\<lambda>entry. snd entry = n) (objects w)) = Some obj \<longrightarrow>
      (obj \<in> set (spinningObjects (toggleSpin n w)) \<longleftrightarrow> obj \<notin> set (spinningObjects w)))"
proof (intro conjI impI)
  show "set (spinningObjects (toggleSpin n (toggleSpin n w))) = set (spinningObjects w)"
    by (rule toggleSpin_twice)
next
  assume other: "map_option fst (find (\<lambda>entry. snd entry = n) (objects w)) \<noteq> Some obj'"
  show "obj' \<in> set (spinningObjects (toggleSpin n w)) \<longleftrightarrow> obj' \<in> set (spinningObjects w)"
  proof (cases "find (\<lambda>entry. snd entry = n) (objects w)")
    case None
    then show ?thesis by (simp add: toggleSpin_not_found)
  next
    case (Some entry)
    then have "find (\<lambda>entry. snd entry = n) (objects w) = Some (fst entry, snd entry)"
      by simp
    moreover from other Some have "obj' \<noteq> fst entry" by auto
    ultimately show ?thesis by (rule toggleSpin_other)
  qed
next
  assume "n \<noteq> [] \<and> map_option fst (find (\<lambda>entry. snd entry = n) (objects w)) = Some obj"
  then obtain nm where "n \<noteq> []"
    and "find (\<lambda>entry. snd entry = n) (objects w) = Some (obj, nm)"
    by auto
  then show "obj \<in> set (spinningObjects (toggleSpin n w)) \<longleftrightarrow> obj \<notin> set (spinningObjects w)"
    by (rule toggleSpin_flips)
qed

theorem toggleSpin_involution_witness:
  "map_option fst (find (\<lambda>entry. snd entry = ''prepop2_sphere'') (objects (initial_world 50))) \<noteq> Some 0 \<and>
   map_option fst (find (\<lambda>entry. snd entry = ''prepop2_sphere'') (objects (initial_world 50))) = Some 1 \<and>
   ''prepop2_sphere'' \<noteq> [] \<and>
   0 \<notin> set (spinningObjects (toggleSpin ''prepop2_sphere'' (initial_world 50))) \<and>
   1 \<in> set (spinningObjects (toggleSpin ''prepop2_sphere'' (initial_world 50))) \<and>
   set (spinningObjects (toggleSpin ''prepop2_sphere''
          (toggleSpin ''prepop2_sphere'' (initial_world 50)))) = {}"
proof -
  have f: "find (\<lambda>entry. snd entry = ''prepop2_sphere'') (objects (initial_world 50))
             = Some (1, ''prepop2_sphere'')"
    by (simp add: initial_world_def)
  have e: "spinningObjects (initial_world 50) = []"
    by (simp add: initial_world_def)
  from toggleSpin_involution [of "''prepop2_sphere''" "initial_world 50" 0 1] f e
  show ?thesis by simp
qed

subsection \<open>The spin step of the frame\<close>

lemma spin_obj_other: "obj \<noteq> x \<Longrightarrow> spin_obj d x m obj = m obj"
  by (simp add: spin_obj_def)

lemma spin_obj_rest:
  "position (spin_obj d x m obj) = position (m obj)"
  "material (spin_obj d x m obj) = material (m obj)"
  "r_x (rotation (spin_obj d x m obj)) = r_x (rotation (m obj))"
  "r_z (rotation (spin_obj d x m obj)) = r_z (rotation (m obj))"
  by (simp_all add: spin_obj_def)

lemma fold_spin_other: "obj \<notin> set xs \<Longrightarrow> fold (spin_obj d) xs m obj = m obj"
  by (induction xs arbitrary: m) (simp_all add: spin_obj_other)

lemma fold_spin_rest:
  "position (fold (spin_obj d) xs m obj) = position (m obj) \<and>
   material (fold (spin_obj d) xs m obj) = material (m obj) \<and>
   r_x (rotation (fold (spin_obj d) xs m obj)) = r_x (rotation (m obj)) \<and>
   r_z (rotation (fold (spin_obj d) xs m obj)) = r_z (rotation (m obj))"
  by (induction xs arbitrary: m) (simp_all add: spin_obj_rest)

lemma fold_spin_distinct:
  "distinct xs \<Longrightarrow> obj \<in> set xs \<Longrightarrow>
     r_y (rotation (fold (spin_obj d) xs m obj)) = r_y (rotation (m obj)) + d * 0.2"
proof (induction xs arbitrary: m)
  case Nil
  then show ?case by simp
next
  case (Cons x xs)
  show ?case
  proof (cases "obj = x")
    case True
    with Cons.prems have "obj \<notin> set xs" by simp
    then have "fold (spin_obj d) (x # xs) m obj = spin_obj d x m obj"
      by (simp add: fold_spin_other)
    then have "r_y (rotation (fold (spin_obj d) (x # xs) m obj)) =
                 r_y (rotation (spin_obj d x m obj))"
      by (simp only:)
    also have "\<dots> = r_y (rotation (m obj)) + d * 0.2"
      using True by (simp add: spin_obj_def)
    finally show ?thesis .
  next
    case False
    with Cons.prems have "distinct xs" "obj \<in> set xs" by simp_all
    from Cons.IH [OF this] False show ?thesis by (simp add: spin_obj_other)
  qed
qed

text \<open>
  Claim C10. The spin step leaves position, material, rotation.x and rotation.z of
  every mesh as they were, leaves every field of a mesh outside the spinning set as it
  was, and changes no other variable of the script: only rotation.y of the spinning
  meshes can differ.
\<close>

theorem animate_spin_frame:
  "(\<forall>obj. position (meshes (animate_spin delta w) obj) = position (meshes w obj) \<and>
          material (meshes (animate_spin delta w) obj) = material (meshes w obj) \<and>
          r_x (rotation (meshes (animate_spin delta w) obj)) = r_x (rotation (meshes w obj)) \<and>
          r_z (rotation (meshes (animate_spin delta w) obj)) = r_z (rotation (meshes w obj))) \<and>
   (\<forall>obj. obj \<notin> set (spinningObjects w) \<longrightarrow>
          meshes (animate_spin delta w) obj = meshes w obj) \<and>
   (animate_spin delta w)\<lparr>meshes := meshes w\<rparr> = w"
  by (simp add: animate_spin_def fold_spin_other fold_spin_rest)

theorem animate_spin_frame_witness:
  "0 \<notin> set (spinningObjects (toggleSpin ''prepop2_sphere'' (initial_world 50))) \<and>
   meshes (animate_spin 1 (toggleSpin ''prepop2_sphere'' (initial_world 50))) 0
     = meshes (toggleSpin ''prepop2_sphere'' (initial_world 50)) 0 \<and>
   r_y (rotation (meshes (animate_spin 1 (toggleSpin ''prepop2_sphere'' (initial_world 50))) 1)) = 0.2"
proof -
  have s: "spinningObjects (toggleSpin ''prepop2_sphere'' (initial_world 50)) = [1]"
    by (simp add: toggleSpin_def initial_world_def)
  have r: "r_y (rotation (meshes (animate_spin 1
              (toggleSpin ''prepop2_sphere'' (initial_world 50))) 1)) = 0.2"
    by (simp add: animate_spin_def s spin_obj_def toggleSpin_def initial_world_def
          createPrimitive_def)
  from animate_spin_frame [of 1 "toggleSpin ''prepop2_sphere'' (initial_world 50)"] s r
  show ?thesis by simp
qed

end
